theory Spec2Isabelle
  imports Main "HOL-Library.Word"
begin

section \<open>JavaScript values used by the token issuer\<close>

text \<open>
  The issuer is the TypeScript function \<open>generateAccessToken\<close>. Its inputs are strings,
  arrays of strings and values that may be \<open>undefined\<close>. A JavaScript string is a
  \<^typ>\<open>string\<close>, an array is a list, a value that may be \<open>undefined\<close> is an
  \<^typ>\<open>'a option\<close> (\<open>None\<close> for \<open>undefined\<close>), a \<open>Buffer\<close> is a list of bytes.
\<close>

type_synonym byte = "8 word"

text \<open>
  \<open>!x\<close> on an optional string is true for \<open>undefined\<close> and for the empty string;
  \<open>truthy\<close> is its negation. An array is truthy whenever it is defined.
\<close>

definition truthy :: "string option \<Rightarrow> bool" where
  "truthy x = (case x of None \<Rightarrow> False | Some s \<Rightarrow> s \<noteq> [])"

text \<open>\<open>a ?? b\<close>: the right operand is used only when the left one is \<open>undefined\<close>.\<close>

definition nullish :: "'a option \<Rightarrow> 'a option \<Rightarrow> 'a option" where
  "nullish a b = (case a of Some x \<Rightarrow> Some x | None \<Rightarrow> b)"

text \<open>
  Conversion to a string, as a template literal and the \<open>URL\<close> constructor do it:
  \<open>undefined\<close> becomes the nine letters \<open>undefined\<close>.
\<close>

definition to_string :: "string option \<Rightarrow> string" where
  "to_string x = (case x of None \<Rightarrow> ''undefined'' | Some s \<Rightarrow> s)"

text \<open>
  Reading index \<open>i\<close> of an array (also by destructuring) or of a buffer with \<open>at\<close>:
  \<open>undefined\<close> out of range.
\<close>

definition element_at :: "'a list \<Rightarrow> nat \<Rightarrow> 'a option" where
  "element_at xs i = (if i < length xs then Some (xs ! i) else None)"

text \<open>
  \<open>s.split(sep)\<close> for a one-character separator: the pieces between the separators,
  empty pieces kept; a string without the separator gives one piece.
\<close>

fun split_from :: "char \<Rightarrow> string \<Rightarrow> string \<Rightarrow> string list" where
  "split_from sep piece [] = [piece]"
| "split_from sep piece (c # cs) =
     (if c = sep then piece # split_from sep [] cs
      else split_from sep (piece @ [c]) cs)"

definition split :: "string \<Rightarrow> char \<Rightarrow> string list" where
  "split s sep = split_from sep [] s"

section \<open>The data model\<close>

datatype ContentCloudPermission =
    CONTENT_READ
  | CONTENT_TYPE_READ
  | ASSET_READ_FILE
  | USER_DATA_READ
  | USER_DATA_WRITE
  | EXTERNAL_LINK_READ
  | EXTERNAL_LINK_WRITE
  | PREVIEW
  | DEVELOPER
  | SPACE_READ

fun permission_value :: "ContentCloudPermission \<Rightarrow> string" where
  "permission_value CONTENT_READ = ''permission:content:read''"
| "permission_value CONTENT_TYPE_READ = ''permission:content-type:read''"
| "permission_value ASSET_READ_FILE = ''permission:asset:read:file''"
| "permission_value USER_DATA_READ = ''permission:user-data:read''"
| "permission_value USER_DATA_WRITE = ''permission:user-data:write''"
| "permission_value EXTERNAL_LINK_READ = ''permission:external-link:read''"
| "permission_value EXTERNAL_LINK_WRITE = ''permission:external-link:write''"
| "permission_value PREVIEW = ''permission:preview''"
| "permission_value DEVELOPER = ''permission:developer''"
| "permission_value SPACE_READ = ''permission:space:read''"

text \<open>
  The service enumeration has a member \<open>PREVIEW\<close> too; it is \<open>SERVICE_PREVIEW\<close> here,
  since one theory cannot hold two constructors of one name.
\<close>

datatype ContentCloudService =
    LIVE
  | CDN
  | ASSETS
  | DEV
  | SERVICE_PREVIEW
  | ASSET_PREVIEWS
  | PUBLISHER

fun service_value :: "ContentCloudService \<Rightarrow> string" where
  "service_value LIVE = ''service:live''"
| "service_value CDN = ''service:cdn''"
| "service_value ASSETS = ''service:assets''"
| "service_value DEV = ''service:dev''"
| "service_value SERVICE_PREVIEW = ''service:preview''"
| "service_value ASSET_PREVIEWS = ''service:asset-previews''"
| "service_value PUBLISHER = ''service:publisher''"

text \<open>
  The argument of \<open>generateAccessToken\<close>. The interface declares \<open>baseUrl\<close>,
  \<open>services\<close> and \<open>permissions\<close> as required, but the function tests each of them
  for presence, so every field may be absent here.
\<close>

record ContentCloudJwtPayload =
  baseUrl :: "string option"
  services :: "ContentCloudService list option"
  permissions :: "ContentCloudPermission list option"
  spaceId :: "string option"
  environmentIds :: "string list option"
  userId :: "string option"
  userDataContentTypes :: "string list option"

text \<open>The variables of \<open>process.env\<close> that the function reads.\<close>

record process_env =
  CC_CLIENT_SECRET :: "string option"
  CC_SATELLITE_BASE_URL :: "string option"
  CC_BASE_URL :: "string option"
  CC_SPACE_ID :: "string option"
  CC_ENVIRONMENT_ID :: "string option"

text \<open>
  The four ways the function ends without a token: its own two \<open>throw\<close> statements, the
  \<open>TypeError\<close> of the \<open>URL\<close> constructor, and an error thrown by the signer.
\<close>

datatype error =
    MissingClientSecret
  | UnsupportedSecretFormat
  | InvalidURL
  | SignerError

section \<open>The signer and the platform\<close>

datatype Algorithm = RS256 | HS256

datatype signing_key = KeyText string | KeyBytes "byte list"

text \<open>\<open>externalPayload\<close>, the claims the function builds itself.\<close>

record JwtPayload =
  aud :: string
  iss :: string
  scope :: "string list"
  sub :: "string option"

text \<open>The third argument of \<open>jsonwebtoken.sign\<close>.\<close>

record SignOptions =
  algorithm :: Algorithm
  keyid :: string
  expiresIn :: int

text \<open>
  A signed token, decoded: its header, its claims (those of the payload, with the two
  times the signer adds) and its signature.
\<close>

record jwt_header =
  alg :: Algorithm
  kid :: string

record jwt_claims = JwtPayload +
  iat :: int
  exp :: int

record token =
  header :: jwt_header
  claims :: jwt_claims
  signature :: string

text \<open>
  What the function takes from the platform and from the cryptographic library, as
  parameters: \<open>Buffer.from(s, "base64")\<close>, \<open>buffer.toString("utf8")\<close>,
  \<open>new URL(s).hostname\<close> (\<open>None\<close> when the constructor throws), whether the signer
  accepts a key for an algorithm, and the signature it computes.
\<close>

record platform =
  base64_decode :: "string \<Rightarrow> byte list"
  utf8_text :: "byte list \<Rightarrow> string"
  url_hostname :: "string \<Rightarrow> string option"
  key_accepted :: "Algorithm \<Rightarrow> signing_key \<Rightarrow> bool"
  jws_signature :: "Algorithm \<Rightarrow> signing_key \<Rightarrow> jwt_header \<Rightarrow> jwt_claims \<Rightarrow> string"

text \<open>
  Modelled from the spec: \<open>jsonwebtoken.sign\<close>, the signer of the imported library, which
  is not among the sources. The spec gives it as a collaborator taking claims, key
  material, algorithm, key id and expiry; the token it returns has the header fields
  \<open>alg\<close> and \<open>kid\<close> and the payload fields of the claims with \<open>iat\<close> and \<open>exp\<close>, where
  the expiry is \<open>iat\<close> plus the time to live. \<open>now\<close> is the clock in seconds. The compact
  string is kept decoded, as a \<^typ>\<open>token\<close>.
\<close>

definition jwt_sign ::
  "platform \<Rightarrow> int \<Rightarrow> JwtPayload \<Rightarrow> signing_key \<Rightarrow> SignOptions \<Rightarrow> error + token" where
  "jwt_sign P now payload key options =
     (if \<not> key_accepted P (algorithm options) key then Inl SignerError
      else
        let h = \<lparr>alg = algorithm options, kid = keyid options\<rparr>;
            c = \<lparr>aud = aud payload, iss = iss payload, scope = scope payload,
                 sub = sub payload, iat = now, exp = now + expiresIn options\<rparr>
        in Inr \<lparr>header = h, claims = c,
                signature = jws_signature P (algorithm options) key h c\<rparr>)"

section \<open>generateAccessToken\<close>

text \<open>Lines 70 to 75: the secret is the argument, else the variable; absent or empty is fatal.\<close>

definition resolveClientSecret :: "string option \<Rightarrow> process_env \<Rightarrow> error + string" where
  "resolveClientSecret clientSecret env =
     (let clientSecret' = (if \<not> truthy clientSecret then CC_CLIENT_SECRET env else clientSecret)
      in case clientSecret' of
           None \<Rightarrow> Inl MissingClientSecret
         | Some s \<Rightarrow> if s = [] then Inl MissingClientSecret else Inr s)"

text \<open>
  Lines 77 to 80: the first three pieces of the secret, each of them present and not
  empty. The destructuring reads indices 0, 1 and 2 and nothing else.
\<close>

definition splitClientSecret :: "string \<Rightarrow> error + (string \<times> string \<times> string)" where
  "splitClientSecret clientSecret =
     (let parts = split clientSecret CHR '':'';
          clientId = element_at parts 0;
          issuerBase64 = element_at parts 1;
          secretBase64 = element_at parts 2
      in if \<not> truthy clientId \<or> \<not> truthy issuerBase64 \<or> \<not> truthy secretBase64
         then Inl UnsupportedSecretFormat
         else Inr (to_string clientId, to_string issuerBase64, to_string secretBase64))"

text \<open>Line 82.\<close>

definition resolveBaseUrl :: "ContentCloudJwtPayload \<Rightarrow> process_env \<Rightarrow> string option" where
  "resolveBaseUrl payload env =
     nullish (nullish (baseUrl payload) (CC_SATELLITE_BASE_URL env)) (CC_BASE_URL env)"

text \<open>
  Lines 87 to 111: the scope starts empty and each step pushes onto it. The environment
  step has three branches: the identifiers of the payload when the array is there (also
  when it is empty), else the configured identifier when it is not empty, else the
  wildcard.
\<close>

definition extendScope :: "ContentCloudJwtPayload \<Rightarrow> process_env \<Rightarrow> string list" where
  "extendScope payload env =
     (let scope0 = [];
          scope1 = (case permissions payload of
                      Some ps \<Rightarrow> scope0 @ map permission_value ps
                    | None \<Rightarrow> scope0);
          scope2 = (case services payload of
                      Some ss \<Rightarrow> scope1 @ map service_value ss
                    | None \<Rightarrow> scope1);
          scope3 = scope2 @ [''space:'' @ to_string (nullish (spaceId payload) (CC_SPACE_ID env))];
          scope4 = (case environmentIds payload of
                      Some ids \<Rightarrow> scope3 @ map (\<lambda>envId. ''environment:'' @ envId) ids
                    | None \<Rightarrow>
                        if truthy (CC_ENVIRONMENT_ID env)
                        then scope3 @ [''environment:'' @ to_string (CC_ENVIRONMENT_ID env)]
                        else scope3 @ [''environment:*'']);
          scope5 = (case userDataContentTypes payload of
                      Some cts \<Rightarrow> scope4 @ map (\<lambda>ct. ''content-user-data:'' @ ct) cts
                    | None \<Rightarrow> scope4)
      in scope5)"

text \<open>Lines 119 to 124: the buffer starts with five hyphens.\<close>

definition asymmetric :: "byte list \<Rightarrow> bool" where
  "asymmetric secretBinary =
     (element_at secretBinary 0 = Some 0x2d \<and>
      element_at secretBinary 1 = Some 0x2d \<and>
      element_at secretBinary 2 = Some 0x2d \<and>
      element_at secretBinary 3 = Some 0x2d \<and>
      element_at secretBinary 4 = Some 0x2d)"

text \<open>
  The function, in the order of its statements. \<open>ttlInSeconds\<close> and \<open>clientSecret\<close>
  are the optional arguments; \<open>env\<close> and \<open>now\<close> are what it reads from the process.
\<close>

definition generateAccessToken ::
  "platform \<Rightarrow> process_env \<Rightarrow> int \<Rightarrow>
   ContentCloudJwtPayload \<Rightarrow> int option \<Rightarrow> string option \<Rightarrow> error + token" where
  "generateAccessToken P env now payload ttlInSeconds clientSecret =
     (let ttl = (case ttlInSeconds of None \<Rightarrow> 3600 | Some t \<Rightarrow> t) in
      case resolveClientSecret clientSecret env of
        Inl e \<Rightarrow> Inl e
      | Inr secret \<Rightarrow>
      (case splitClientSecret secret of
        Inl e \<Rightarrow> Inl e
      | Inr (clientId, issuerBase64, secretBase64) \<Rightarrow>
      (case url_hostname P (to_string (resolveBaseUrl payload env)) of
        None \<Rightarrow> Inl InvalidURL
      | Some hostname \<Rightarrow>
          let externalPayload =
                \<lparr>aud = ''https://'' @ hostname,
                 iss = utf8_text P (base64_decode P issuerBase64),
                 scope = extendScope payload env,
                 sub = (if truthy (userId payload) then userId payload else None)\<rparr>;
              secretBinary = base64_decode P secretBase64
          in jwt_sign P now externalPayload
               (if asymmetric secretBinary then KeyText (utf8_text P secretBinary)
                else KeyBytes secretBinary)
               \<lparr>algorithm = (if asymmetric secretBinary then RS256 else HS256),
                keyid = ''client:'' @ clientId @ '':0'',
                expiresIn = ttl\<rparr>)))"

section \<open>A concrete platform\<close>

text \<open>
  Concrete collaborators, to run the function on examples: base64 of the standard
  alphabet (decoding stops at the padding), bytes below 128 read as ASCII, and the host
  of an \<open>http\<close> or \<open>https\<close> address (what stands before the port, the path, the query
  and the fragment). The signer takes any bytes for HS256 and a text that starts like a
  PEM block for RS256; the signature text names the algorithm only.
\<close>

definition sextet :: "char \<Rightarrow> nat option" where
  "sextet c =
     (let n = (of_char c :: nat) in
      if 65 \<le> n \<and> n \<le> 90 then Some (n - 65)
      else if 97 \<le> n \<and> n \<le> 122 then Some (n - 71)
      else if 48 \<le> n \<and> n \<le> 57 then Some (n + 4)
      else if n = 43 then Some 62
      else if n = 47 then Some 63
      else None)"

fun sextets :: "string \<Rightarrow> nat list" where
  "sextets [] = []"
| "sextets (c # cs) = (case sextet c of None \<Rightarrow> [] | Some v \<Rightarrow> v # sextets cs)"

fun octets :: "nat list \<Rightarrow> byte list" where
  "octets (a # b # c # d # rest) =
     of_nat (a * 4 + b div 16) # of_nat (b mod 16 * 16 + c div 4) # of_nat (c mod 4 * 64 + d)
       # octets rest"
| "octets [a, b, c] = [of_nat (a * 4 + b div 16), of_nat (b mod 16 * 16 + c div 4)]"
| "octets [a, b] = [of_nat (a * 4 + b div 16)]"
| "octets _ = []"

definition std_base64_decode :: "string \<Rightarrow> byte list" where
  "std_base64_decode s = octets (sextets s)"

definition ascii_text :: "byte list \<Rightarrow> string" where
  "ascii_text bs = map (\<lambda>b. char_of (unat b)) bs"

definition host_of_authority :: "string \<Rightarrow> string option" where
  "host_of_authority rest =
     (let authority = takeWhile (\<lambda>c. c \<noteq> CHR ''/'' \<and> c \<noteq> CHR ''?'' \<and> c \<noteq> CHR ''#'') rest;
          host = takeWhile (\<lambda>c. c \<noteq> CHR '':'') authority
      in if host = [] then None else Some host)"

definition simple_hostname :: "string \<Rightarrow> string option" where
  "simple_hostname s =
     (if take 8 s = ''https://'' then host_of_authority (drop 8 s)
      else if take 7 s = ''http://'' then host_of_authority (drop 7 s)
      else None)"

definition pem_or_bytes :: "Algorithm \<Rightarrow> signing_key \<Rightarrow> bool" where
  "pem_or_bytes a k =
     (case (a, k) of
        (HS256, KeyBytes bs) \<Rightarrow> True
      | (RS256, KeyText t) \<Rightarrow> take 10 t = ''-----BEGIN''
      | _ \<Rightarrow> False)"

definition algorithm_name :: "Algorithm \<Rightarrow> signing_key \<Rightarrow> jwt_header \<Rightarrow> jwt_claims \<Rightarrow> string" where
  "algorithm_name a k h c = (case a of RS256 \<Rightarrow> ''RS256'' | HS256 \<Rightarrow> ''HS256'')"

definition example_platform :: platform where
  "example_platform =
     \<lparr>base64_decode = std_base64_decode, utf8_text = ascii_text,
      url_hostname = simple_hostname, key_accepted = pem_or_bytes,
      jws_signature = algorithm_name\<rparr>"

definition no_env :: process_env where
  "no_env =
     \<lparr>CC_CLIENT_SECRET = None, CC_SATELLITE_BASE_URL = None, CC_BASE_URL = None,
      CC_SPACE_ID = None, CC_ENVIRONMENT_ID = None\<rparr>"

text \<open>
  The example of the spec: one permission, one service, a space, two environments, and
  the secret \<open>abc:aXNz:c2VjcmV0\<close> (issuer \<open>iss\<close>, key \<open>secret\<close>).
\<close>

definition example_payload :: ContentCloudJwtPayload where
  "example_payload =
     \<lparr>baseUrl = Some ''https://cloud.example.com:8443/v1/spaces?draft=1'',
      services = Some [CDN], permissions = Some [CONTENT_READ],
      spaceId = Some ''sp1'', environmentIds = Some [''env1'', ''env2''],
      userId = None, userDataContentTypes = None\<rparr>"

definition example_secret :: string where
  "example_secret = ''abc:aXNz:c2VjcmV0''"

text \<open>The same client and issuer with a key whose decoded text is \<open>-----BEGIN\<close>.\<close>

definition example_pem_secret :: string where
  "example_pem_secret = ''abc:aXNz:LS0tLS1CRUdJTg==''"

text \<open>The token of the example, issued at second 1700000000 with the default time to live.\<close>

definition example_token :: token where
  "example_token =
     \<lparr>header = \<lparr>alg = HS256, kid = ''client:abc:0''\<rparr>,
      claims =
        \<lparr>aud = ''https://cloud.example.com'', iss = ''iss'',
         scope = [''permission:content:read'', ''service:cdn'', ''space:sp1'',
                  ''environment:env1'', ''environment:env2''],
         sub = None, iat = 1700000000, exp = 1700003600\<rparr>,
      signature = ''HS256''\<rparr>"

definition example_pem_token :: token where
  "example_pem_token =
     example_token\<lparr>header := \<lparr>alg = RS256, kid = ''client:abc:0''\<rparr>, signature := ''RS256''\<rparr>"

text \<open>
  A payload with repeated entries, a payload with nothing in it, and a process that
  configures everything.
\<close>

definition duplicate_payload :: ContentCloudJwtPayload where
  "duplicate_payload =
     \<lparr>baseUrl = Some ''https://cloud.example.com'',
      services = Some [CDN, LIVE, CDN], permissions = Some [PREVIEW, CONTENT_READ, PREVIEW],
      spaceId = Some ''sp1'', environmentIds = Some [''env1'', ''env1''],
      userId = Some ''auth0:123456'', userDataContentTypes = Some [''*'', ''notes'', ''*'']\<rparr>"

definition bare_payload :: ContentCloudJwtPayload where
  "bare_payload =
     \<lparr>baseUrl = None, services = None, permissions = None, spaceId = None,
      environmentIds = None, userId = None, userDataContentTypes = None\<rparr>"

definition configured_env :: process_env where
  "configured_env =
     \<lparr>CC_CLIENT_SECRET = Some example_secret,
      CC_SATELLITE_BASE_URL = Some ''https://satellite.example.com/api'',
      CC_BASE_URL = Some ''https://generic.example.com'',
      CC_SPACE_ID = Some ''sp2'', CC_ENVIRONMENT_ID = Some ''env3''\<rparr>"

text \<open>An entry of the scope that names a space, and one that names an environment.\<close>

definition space_entry :: "string \<Rightarrow> bool" where
  "space_entry e = (take 6 e = ''space:'')"

definition environment_entry :: "string \<Rightarrow> bool" where
  "environment_entry e = (take 12 e = ''environment:'')"

section \<open>Facts about the parts\<close>

text \<open>
  \<open>split\<close> cuts at every separator and nowhere else: the pieces hold no separator,
  there is at least one piece, and the pieces, each followed by the separator, give back
  the string followed by the separator.
\<close>

lemma split_from_pieces:
  "concat (map (\<lambda>p. p @ [sep]) (split_from sep piece s)) = piece @ s @ [sep]"
  by (induction s arbitrary: piece) auto

lemma split_from_no_sep:
  "sep \<notin> set piece \<Longrightarrow> p \<in> set (split_from sep piece s) \<Longrightarrow> sep \<notin> set p"
proof (induction s arbitrary: piece)
  case Nil
  then show ?case by auto
next
  case (Cons c cs)
  show ?case
  proof (cases "c = sep")
    case True
    with Cons.prems have "p = piece \<or> p \<in> set (split_from sep [] cs)" by auto
    then show ?thesis using Cons.IH [of "[]"] Cons.prems(1) by auto
  next
    case False
    with Cons.prems have "p \<in> set (split_from sep (piece @ [c]) cs)" by auto
    moreover have "sep \<notin> set (piece @ [c])" using False Cons.prems(1) by auto
    ultimately show ?thesis using Cons.IH by blast
  qed
qed

lemma split_from_nonempty: "split_from sep piece s \<noteq> []"
  by (induction s arbitrary: piece) auto

lemma asymmetric_iff: "asymmetric bs \<longleftrightarrow> take 5 bs = replicate 5 0x2d"
proof -
  have r: "replicate 5 (0x2d::byte) = [0x2d, 0x2d, 0x2d, 0x2d, 0x2d]"
    by (simp add: eval_nat_numeral)
  show ?thesis
  proof (cases bs)
    case Nil then show ?thesis by (simp add: asymmetric_def element_at_def r)
  next
    case (Cons a as)
    note A = Cons
    show ?thesis
    proof (cases as)
      case Nil then show ?thesis using A by (simp add: asymmetric_def element_at_def r)
    next
      case (Cons b bs')
      note B = Cons
      show ?thesis
      proof (cases bs')
        case Nil then show ?thesis using A B by (simp add: asymmetric_def element_at_def r)
      next
        case (Cons c cs)
        note C = Cons
        show ?thesis
        proof (cases cs)
          case Nil then show ?thesis using A B C by (simp add: asymmetric_def element_at_def r)
        next
          case (Cons d ds)
          note D = Cons
          show ?thesis
          proof (cases ds)
            case Nil then show ?thesis using A B C D by (simp add: asymmetric_def element_at_def r)
          next
            case (Cons e es)
            then show ?thesis using A B C D
              by (auto simp add: asymmetric_def element_at_def r eval_nat_numeral)
          qed
        qed
      qed
    qed
  qed
qed

lemma jwt_sign_Inr:
  assumes "jwt_sign P now pl key opts = Inr tok"
  shows "key_accepted P (algorithm opts) key"
    and "header tok = \<lparr>alg = algorithm opts, kid = keyid opts\<rparr>"
    and "claims tok = \<lparr>aud = aud pl, iss = iss pl, scope = scope pl, sub = sub pl,
                        iat = now, exp = now + expiresIn opts\<rparr>"
    and "signature tok = jws_signature P (algorithm opts) key (header tok) (claims tok)"
  using assms by (auto simp: jwt_sign_def Let_def split: if_splits)

lemma generateAccessToken_Inr:
  assumes "generateAccessToken P env now payload ttl cs = Inr tok"
  obtains secret clientId issuerBase64 secretBase64 hostname where
    "resolveClientSecret cs env = Inr secret"
    "splitClientSecret secret = Inr (clientId, issuerBase64, secretBase64)"
    "url_hostname P (to_string (resolveBaseUrl payload env)) = Some hostname"
    "jwt_sign P now
       \<lparr>aud = ''https://'' @ hostname,
        iss = utf8_text P (base64_decode P issuerBase64),
        scope = extendScope payload env,
        sub = (if truthy (userId payload) then userId payload else None)\<rparr>
       (if asymmetric (base64_decode P secretBase64)
        then KeyText (utf8_text P (base64_decode P secretBase64))
        else KeyBytes (base64_decode P secretBase64))
       \<lparr>algorithm = (if asymmetric (base64_decode P secretBase64) then RS256 else HS256),
        keyid = ''client:'' @ clientId @ '':0'',
        expiresIn = (case ttl of None \<Rightarrow> 3600 | Some t \<Rightarrow> t)\<rparr> = Inr tok"
  using assms
  by (auto simp: generateAccessToken_def Let_def split: sum.splits option.splits prod.splits)

lemma splitClientSecret_Inr:
  assumes "splitClientSecret s = Inr (clientId, issuerBase64, secretBase64)"
  shows "3 \<le> length (split s CHR '':'')"
    and "clientId = split s CHR '':'' ! 0" and "clientId \<noteq> []"
    and "issuerBase64 = split s CHR '':'' ! 1" and "issuerBase64 \<noteq> []"
    and "secretBase64 = split s CHR '':'' ! 2" and "secretBase64 \<noteq> []"
  using assms
  by (auto simp: splitClientSecret_def Let_def element_at_def truthy_def to_string_def
           split: if_splits option.splits)

lemma resolveBaseUrl_cases:
  "to_string (resolveBaseUrl payload env) =
     (case baseUrl payload of
        Some b \<Rightarrow> b
      | None \<Rightarrow>
          (case CC_SATELLITE_BASE_URL env of
             Some b \<Rightarrow> b
           | None \<Rightarrow> (case CC_BASE_URL env of Some b \<Rightarrow> b | None \<Rightarrow> ''undefined'')))"
  by (simp add: resolveBaseUrl_def nullish_def to_string_def split: option.splits)

lemma extendScope_eq:
  "extendScope payload env =
     (case permissions payload of None \<Rightarrow> [] | Some ps \<Rightarrow> map permission_value ps) @
     (case services payload of None \<Rightarrow> [] | Some ss \<Rightarrow> map service_value ss) @
     [''space:'' @
        (case spaceId payload of
           Some s \<Rightarrow> s
         | None \<Rightarrow> (case CC_SPACE_ID env of Some s \<Rightarrow> s | None \<Rightarrow> ''undefined''))] @
     (case environmentIds payload of
        Some ids \<Rightarrow> map (\<lambda>envId. ''environment:'' @ envId) ids
      | None \<Rightarrow>
          (case CC_ENVIRONMENT_ID env of
             None \<Rightarrow> [''environment:*'']
           | Some e \<Rightarrow> if e = [] then [''environment:*''] else [''environment:'' @ e])) @
     (case userDataContentTypes payload of
        None \<Rightarrow> []
      | Some cts \<Rightarrow> map (\<lambda>ct. ''content-user-data:'' @ ct) cts)"
  by (simp add: extendScope_def Let_def nullish_def to_string_def truthy_def
           split: option.splits)

lemma generateAccessToken_scope:
  assumes "generateAccessToken P env now payload ttl cs = Inr tok"
  shows "scope (claims tok) = extendScope payload env"
proof -
  from assms obtain hostname issuer key opts where
    "jwt_sign P now
       \<lparr>aud = ''https://'' @ hostname, iss = issuer, scope = extendScope payload env,
        sub = (if truthy (userId payload) then userId payload else None)\<rparr> key opts = Inr tok"
    by (rule generateAccessToken_Inr)
  from jwt_sign_Inr(3) [OF this] show ?thesis by simp
qed

lemma permission_not_space: "\<not> space_entry (permission_value p)"
  by (cases p) (simp_all add: space_entry_def)

lemma service_not_space: "\<not> space_entry (service_value s)"
  by (cases s) (simp_all add: space_entry_def)

lemma filter_space_entries:
  "filter space_entry (map permission_value ps) = []"
  "filter space_entry (map service_value ss) = []"
  "filter space_entry (map (\<lambda>envId. ''environment:'' @ envId) ids) = []"
  "filter space_entry (map (\<lambda>ct. ''content-user-data:'' @ ct) cts) = []"
proof -
  show "filter space_entry (map permission_value ps) = []"
    by (simp add: filter_empty_conv permission_not_space)
  show "filter space_entry (map service_value ss) = []"
    by (simp add: filter_empty_conv service_not_space)
  show "filter space_entry (map (\<lambda>envId. ''environment:'' @ envId) ids) = []"
    by (simp add: filter_empty_conv space_entry_def)
  show "filter space_entry (map (\<lambda>ct. ''content-user-data:'' @ ct) cts) = []"
    by (simp add: filter_empty_conv space_entry_def)
qed

lemma resolveClientSecret_env:
  "resolveClientSecret cs (env\<lparr>CC_SPACE_ID := v\<rparr>) = resolveClientSecret cs env"
  by (simp add: resolveClientSecret_def)

lemma resolveBaseUrl_space:
  "resolveBaseUrl (payload\<lparr>spaceId := v\<rparr>) (env\<lparr>CC_SPACE_ID := w\<rparr>) = resolveBaseUrl payload env"
  by (simp add: resolveBaseUrl_def)

lemma splitClientSecret_Inl:
  "splitClientSecret s = Inl e \<longleftrightarrow>
     e = UnsupportedSecretFormat \<and>
     (let parts = split s CHR '':'' in
      length parts < 3 \<or> parts ! 0 = [] \<or> parts ! 1 = [] \<or> parts ! 2 = [])"
  by (auto simp: splitClientSecret_def Let_def element_at_def truthy_def split: if_splits)

section \<open>The claims\<close>

subsection \<open>C1: the algorithm follows the first five bytes of the key\<close>

text \<open>
  C1. In every token produced, the algorithm depends on the first five bytes of the
  decoded third piece of the secret and on nothing else. When they are five hyphens
  (\<open>0x2d\<close>), the header declares RS256 and the token is signed with the decoded bytes
  read as text; otherwise the header declares HS256 and the token is signed with the
  decoded bytes themselves.
\<close>

theorem algorithm_chosen_by_first_five_bytes:
  assumes "generateAccessToken P env now payload ttl cs = Inr tok"
    and "resolveClientSecret cs env = Inr secret"
  shows "(let secretBinary = base64_decode P (split secret CHR '':'' ! 2) in
          if take 5 secretBinary = replicate 5 0x2d
          then alg (header tok) = RS256 \<and>
               key_accepted P RS256 (KeyText (utf8_text P secretBinary)) \<and>
               signature tok =
                 jws_signature P RS256 (KeyText (utf8_text P secretBinary))
                   (header tok) (claims tok)
          else alg (header tok) = HS256 \<and>
               key_accepted P HS256 (KeyBytes secretBinary) \<and>
               signature tok =
                 jws_signature P HS256 (KeyBytes secretBinary) (header tok) (claims tok))"
proof -
  from assms(1) obtain secret' clientId issuerBase64 secretBase64 pl where
    r: "resolveClientSecret cs env = Inr secret'" and
    s: "splitClientSecret secret' = Inr (clientId, issuerBase64, secretBase64)" and
    j: "jwt_sign P now pl
          (if asymmetric (base64_decode P secretBase64)
           then KeyText (utf8_text P (base64_decode P secretBase64))
           else KeyBytes (base64_decode P secretBase64))
          \<lparr>algorithm = (if asymmetric (base64_decode P secretBase64) then RS256 else HS256),
           keyid = ''client:'' @ clientId @ '':0'',
           expiresIn = (case ttl of None \<Rightarrow> 3600 | Some t \<Rightarrow> t)\<rparr> = Inr tok"
    by (rule generateAccessToken_Inr)
  from r assms(2) have e: "secret' = secret" by simp
  from splitClientSecret_Inr(6) [OF s] have b: "secretBase64 = split secret CHR '':'' ! 2"
    unfolding e .
  show ?thesis
    using jwt_sign_Inr(1,2,4) [OF j]
    by (simp add: Let_def b asymmetric_iff split: if_splits)
qed

theorem algorithm_chosen_by_first_five_bytes_witness:
  "generateAccessToken example_platform no_env 1700000000 example_payload None
     (Some example_pem_secret) = Inr example_pem_token \<and>
   resolveClientSecret (Some example_pem_secret) no_env = Inr example_pem_secret \<and>
   take 5 (base64_decode example_platform (split example_pem_secret CHR '':'' ! 2))
     = replicate 5 0x2d \<and>
   alg (header example_pem_token) = RS256 \<and>
   generateAccessToken example_platform no_env 1700000000 example_payload None
     (Some example_secret) = Inr example_token \<and>
   resolveClientSecret (Some example_secret) no_env = Inr example_secret \<and>
   take 5 (base64_decode example_platform (split example_secret CHR '':'' ! 2))
     \<noteq> replicate 5 0x2d \<and>
   alg (header example_token) = HS256"
proof -
  have h1: "generateAccessToken example_platform no_env 1700000000 example_payload None
     (Some example_pem_secret) = Inr example_pem_token"
    by code_simp
  have h2: "resolveClientSecret (Some example_pem_secret) no_env = Inr example_pem_secret"
    by code_simp
  have h3: "take 5 (base64_decode example_platform (split example_pem_secret CHR '':'' ! 2))
     = replicate 5 0x2d"
    by code_simp
  have h4: "generateAccessToken example_platform no_env 1700000000 example_payload None
     (Some example_secret) = Inr example_token"
    by code_simp
  have h5: "resolveClientSecret (Some example_secret) no_env = Inr example_secret"
    by code_simp
  have h6: "take 5 (base64_decode example_platform (split example_secret CHR '':'' ! 2))
     \<noteq> replicate 5 0x2d"
    by code_simp
  have a: "alg (header example_pem_token) = RS256"
    using algorithm_chosen_by_first_five_bytes [OF h1 h2] h3 unfolding Let_def by simp
  have b: "alg (header example_token) = HS256"
    using algorithm_chosen_by_first_five_bytes [OF h4 h5] h6 unfolding Let_def by simp
  show ?thesis by (intro conjI h1 h2 h3 h4 h5 h6 a b)
qed

subsection \<open>C2: the scope\<close>

text \<open>
  An empty \<open>environmentIds\<close> array resolves no environment, from the payload or from
  the process, and yet the scope gets no \<open>environment:*\<close> entry: it has no environment
  entry at all.
\<close>

theorem empty_environment_list_counterexample:
  "environmentIds (example_payload\<lparr>environmentIds := Some []\<rparr>) = Some [] \<and>
   CC_ENVIRONMENT_ID no_env = None \<and>
   generateAccessToken example_platform no_env 1700000000
     (example_payload\<lparr>environmentIds := Some []\<rparr>) None (Some example_secret)
     = Inr (example_token\<lparr>claims := (claims example_token)
              \<lparr>scope := [''permission:content:read'', ''service:cdn'', ''space:sp1'']\<rparr>\<rparr>) \<and>
   filter environment_entry
     (scope (claims (example_token\<lparr>claims := (claims example_token)
              \<lparr>scope := [''permission:content:read'', ''service:cdn'', ''space:sp1'']\<rparr>\<rparr>)))
     = []"
  by code_simp

text \<open>
  C2, amended. In every token produced, the scope is, in this order: the permissions
  of the payload in their order, its services in their order, one \<open>space:\<close> entry, the
  environment entries, and one \<open>content-user-data:\<close> entry for each content type of
  the payload. The environment entries are one \<open>environment:\<close> entry for each identifier
  of the payload's array when the array is there (none when it is empty); without the
  array, one entry for \<open>CC_ENVIRONMENT_ID\<close> when that is set and not empty, and the one
  entry \<open>environment:*\<close> otherwise. Nothing is removed or moved, so what is repeated in
  the payload is repeated in the scope.
\<close>

theorem scope_is_ordered_concatenation:
  assumes "generateAccessToken P env now payload ttl cs = Inr tok"
  shows "scope (claims tok) =
     (case permissions payload of None \<Rightarrow> [] | Some ps \<Rightarrow> map permission_value ps) @
     (case services payload of None \<Rightarrow> [] | Some ss \<Rightarrow> map service_value ss) @
     [''space:'' @
        (case spaceId payload of
           Some s \<Rightarrow> s
         | None \<Rightarrow> (case CC_SPACE_ID env of Some s \<Rightarrow> s | None \<Rightarrow> ''undefined''))] @
     (case environmentIds payload of
        Some ids \<Rightarrow> map (\<lambda>envId. ''environment:'' @ envId) ids
      | None \<Rightarrow>
          (case CC_ENVIRONMENT_ID env of
             None \<Rightarrow> [''environment:*'']
           | Some e \<Rightarrow> if e = [] then [''environment:*''] else [''environment:'' @ e])) @
     (case userDataContentTypes payload of
        None \<Rightarrow> []
      | Some cts \<Rightarrow> map (\<lambda>ct. ''content-user-data:'' @ ct) cts)"
  using generateAccessToken_scope [OF assms] by (simp only: extendScope_eq)

theorem scope_is_ordered_concatenation_witness:
  "generateAccessToken example_platform no_env 1700000000 duplicate_payload None
     (Some example_secret)
     = Inr (example_token\<lparr>claims := (claims example_token)
              \<lparr>scope := [''permission:preview'', ''permission:content:read'',
                         ''permission:preview'', ''service:cdn'', ''service:live'',
                         ''service:cdn'', ''space:sp1'', ''environment:env1'',
                         ''environment:env1'', ''content-user-data:*'',
                         ''content-user-data:notes'', ''content-user-data:*''],
               sub := Some ''auth0:123456''\<rparr>\<rparr>) \<and>
   generateAccessToken example_platform configured_env 1700000000 bare_payload None None
     = Inr (example_token\<lparr>claims := (claims example_token)
              \<lparr>aud := ''https://satellite.example.com'',
               scope := [''space:sp2'', ''environment:env3'']\<rparr>\<rparr>) \<and>
   scope (claims (example_token\<lparr>claims := (claims example_token)
              \<lparr>aud := ''https://satellite.example.com'',
               scope := [''space:sp2'', ''environment:env3'']\<rparr>\<rparr>))
     = [] @ [] @ [''space:'' @ ''sp2''] @ [''environment:'' @ ''env3''] @ []"
proof -
  have h1: "generateAccessToken example_platform no_env 1700000000 duplicate_payload None
     (Some example_secret)
     = Inr (example_token\<lparr>claims := (claims example_token)
              \<lparr>scope := [''permission:preview'', ''permission:content:read'',
                         ''permission:preview'', ''service:cdn'', ''service:live'',
                         ''service:cdn'', ''space:sp1'', ''environment:env1'',
                         ''environment:env1'', ''content-user-data:*'',
                         ''content-user-data:notes'', ''content-user-data:*''],
               sub := Some ''auth0:123456''\<rparr>\<rparr>)"
    by code_simp
  have h2: "generateAccessToken example_platform configured_env 1700000000 bare_payload
     None None
     = Inr (example_token\<lparr>claims := (claims example_token)
              \<lparr>aud := ''https://satellite.example.com'',
               scope := [''space:sp2'', ''environment:env3'']\<rparr>\<rparr>)"
    by code_simp
  show ?thesis
    using scope_is_ordered_concatenation [OF h1] scope_is_ordered_concatenation [OF h2] h1 h2
    by (simp add: bare_payload_def configured_env_def)
qed

subsection \<open>C3: the malformed secret\<close>

text \<open>
  A secret of four pieces is not rejected: the pieces after the third are not read, and
  the token is the one of the first three.
\<close>

theorem four_pieces_accepted_counterexample:
  "length (split ''abc:aXNz:c2VjcmV0:extra'' CHR '':'') = 4 \<and>
   generateAccessToken example_platform no_env 1700000000 example_payload None
     (Some ''abc:aXNz:c2VjcmV0:extra'') = Inr example_token"
  by code_simp

text \<open>
  C3, amended. With a client secret resolved, the function ends with the error of the
  unsupported format exactly when one of the first three pieces between the colons is
  missing or empty. Pieces after the third are ignored. With this error there is no
  token.
\<close>

theorem unsupported_format_iff_first_three_pieces:
  assumes "resolveClientSecret cs env = Inr secret"
  shows "generateAccessToken P env now payload ttl cs = Inl UnsupportedSecretFormat \<longleftrightarrow>
           (let parts = split secret CHR '':'' in
            length parts < 3 \<or> parts ! 0 = [] \<or> parts ! 1 = [] \<or> parts ! 2 = [])"
proof (cases "splitClientSecret secret")
  case (Inl e)
  then have "generateAccessToken P env now payload ttl cs = Inl e"
    using assms by (simp add: generateAccessToken_def)
  with Inl show ?thesis by (simp add: splitClientSecret_Inl)
next
  case (Inr triple)
  then have "\<not> (let parts = split secret CHR '':'' in
            length parts < 3 \<or> parts ! 0 = [] \<or> parts ! 1 = [] \<or> parts ! 2 = [])"
    using splitClientSecret_Inl [of secret UnsupportedSecretFormat] by simp
  moreover have "generateAccessToken P env now payload ttl cs \<noteq> Inl UnsupportedSecretFormat"
    using assms Inr
    by (auto simp: generateAccessToken_def jwt_sign_def Let_def
             split: prod.splits option.splits if_splits)
  ultimately show ?thesis by simp
qed

theorem unsupported_format_iff_first_three_pieces_witness:
  "resolveClientSecret (Some ''abc:aXNz'') no_env = Inr ''abc:aXNz'' \<and>
   length (split ''abc:aXNz'' CHR '':'') = 2 \<and>
   generateAccessToken example_platform no_env 1700000000 example_payload None
     (Some ''abc:aXNz'') = Inl UnsupportedSecretFormat"
proof -
  have h: "resolveClientSecret (Some ''abc:aXNz'') no_env = Inr ''abc:aXNz''"
    by code_simp
  have l: "length (split ''abc:aXNz'' CHR '':'') = 2"
    by code_simp
  have "generateAccessToken example_platform no_env 1700000000 example_payload None
     (Some ''abc:aXNz'') = Inl UnsupportedSecretFormat"
    using unsupported_format_iff_first_three_pieces
            [OF h, of example_platform 1700000000 example_payload None] l
    by (simp add: Let_def)
  with h l show ?thesis by simp
qed

subsection \<open>C4: the missing secret\<close>

text \<open>
  C4. With no \<open>clientSecret\<close> argument and no \<open>CC_CLIENT_SECRET\<close> in the process, the
  function ends with the missing-secret error. Nothing else is looked at before: the
  result is this error for every payload, every time to live, every other variable of
  the process and every behaviour of the decoder, the address parser and the signer.
\<close>

theorem missing_secret_raised_first:
  "generateAccessToken P (env\<lparr>CC_CLIENT_SECRET := None\<rparr>) now payload ttl None
     = Inl MissingClientSecret"
  by (simp add: generateAccessToken_def resolveClientSecret_def truthy_def)

theorem missing_secret_raised_first_witness:
  "generateAccessToken example_platform (configured_env\<lparr>CC_CLIENT_SECRET := None\<rparr>)
     1700000000 (example_payload\<lparr>baseUrl := Some ''not an address''\<rparr>) (Some 60) None
     = Inl MissingClientSecret"
  by (rule missing_secret_raised_first)

subsection \<open>C5: the audience\<close>

text \<open>
  C5. In every token produced, the audience is \<open>https://\<close> followed by the host name
  that the address parser gives for the resolved base address: the one of the payload,
  else \<open>CC_SATELLITE_BASE_URL\<close>, else \<open>CC_BASE_URL\<close>. The audience depends on the
  address through its host name only, whatever port, path or query the address has.
\<close>

theorem audience_is_https_hostname:
  assumes "generateAccessToken P env now payload ttl cs = Inr tok"
  shows "map_option (\<lambda>hostname. ''https://'' @ hostname)
           (url_hostname P
              (case baseUrl payload of
                 Some b \<Rightarrow> b
               | None \<Rightarrow>
                   (case CC_SATELLITE_BASE_URL env of
                      Some b \<Rightarrow> b
                    | None \<Rightarrow>
                        (case CC_BASE_URL env of Some b \<Rightarrow> b | None \<Rightarrow> ''undefined''))))
         = Some (aud (claims tok))"
proof -
  from assms obtain hostname issuer sc su key opts where
    u: "url_hostname P (to_string (resolveBaseUrl payload env)) = Some hostname" and
    j: "jwt_sign P now \<lparr>aud = ''https://'' @ hostname, iss = issuer, scope = sc, sub = su\<rparr>
          key opts = Inr tok"
    by (rule generateAccessToken_Inr)
  from jwt_sign_Inr(3) [OF j] have "aud (claims tok) = ''https://'' @ hostname" by simp
  with u show ?thesis by (simp add: resolveBaseUrl_cases)
qed

theorem audience_is_https_hostname_witness:
  "generateAccessToken example_platform no_env 1700000000 example_payload None
     (Some example_secret) = Inr example_token \<and>
   baseUrl example_payload = Some ''https://cloud.example.com:8443/v1/spaces?draft=1'' \<and>
   aud (claims example_token) = ''https://cloud.example.com'' \<and>
   generateAccessToken example_platform configured_env 1700000000 bare_payload None None
     = Inr (example_token\<lparr>claims := (claims example_token)
              \<lparr>aud := ''https://satellite.example.com'',
               scope := [''space:sp2'', ''environment:env3'']\<rparr>\<rparr>) \<and>
   map_option (\<lambda>hostname. ''https://'' @ hostname)
     (url_hostname example_platform ''https://satellite.example.com/api'')
     = Some ''https://satellite.example.com''"
proof -
  have h1: "generateAccessToken example_platform no_env 1700000000 example_payload None
     (Some example_secret) = Inr example_token"
    by code_simp
  have h2: "generateAccessToken example_platform configured_env 1700000000 bare_payload
     None None
     = Inr (example_token\<lparr>claims := (claims example_token)
              \<lparr>aud := ''https://satellite.example.com'',
               scope := [''space:sp2'', ''environment:env3'']\<rparr>\<rparr>)"
    by code_simp
  have b: "baseUrl example_payload = Some ''https://cloud.example.com:8443/v1/spaces?draft=1''"
    by (simp add: example_payload_def)
  have u: "url_hostname example_platform ''https://cloud.example.com:8443/v1/spaces?draft=1''
             = Some ''cloud.example.com''"
    by code_simp
  have a: "aud (claims example_token) = ''https://cloud.example.com''"
    using audience_is_https_hostname [OF h1] b u by simp
  have c: "map_option (\<lambda>hostname. ''https://'' @ hostname)
     (url_hostname example_platform ''https://satellite.example.com/api'')
     = Some ''https://satellite.example.com''"
    using audience_is_https_hostname [OF h2]
    by (simp add: bare_payload_def configured_env_def)
  show ?thesis by (intro conjI h1 h2 a b c)
qed

subsection \<open>C6: no base address\<close>

text \<open>
  With no base address in the payload or in the process, the address parser is given
  the text \<open>undefined\<close>, and the function ends with the parser's error: the failure of
  the host name extraction is what the caller sees.
\<close>

theorem missing_base_url_counterexample:
  "resolveBaseUrl (example_payload\<lparr>baseUrl := None\<rparr>) no_env = None \<and>
   url_hostname example_platform ''undefined'' = None \<and>
   generateAccessToken example_platform no_env 1700000000
     (example_payload\<lparr>baseUrl := None\<rparr>) None (Some example_secret) = Inl InvalidURL"
  by code_simp

text \<open>
  C6, amended. With a well-formed client secret and no base address in the payload, in
  \<open>CC_SATELLITE_BASE_URL\<close> or in \<open>CC_BASE_URL\<close>, the function ends with the error of
  the address parser, raised on the text \<open>undefined\<close>, which the parser rejects. There
  is no error of its own for the missing base address.
\<close>

theorem no_base_url_surfaces_invalid_url:
  assumes "resolveClientSecret cs env = Inr secret"
    and "splitClientSecret secret = Inr pieces"
    and "baseUrl payload = None"
    and "CC_SATELLITE_BASE_URL env = None"
    and "CC_BASE_URL env = None"
    and "url_hostname P ''undefined'' = None"
  shows "generateAccessToken P env now payload ttl cs = Inl InvalidURL"
  using assms
  by (simp add: generateAccessToken_def resolveBaseUrl_cases split: prod.splits)

theorem no_base_url_surfaces_invalid_url_witness:
  "resolveClientSecret None (configured_env\<lparr>CC_SATELLITE_BASE_URL := None, CC_BASE_URL := None\<rparr>)
     = Inr example_secret \<and>
   splitClientSecret example_secret = Inr (''abc'', ''aXNz'', ''c2VjcmV0'') \<and>
   baseUrl bare_payload = None \<and>
   CC_SATELLITE_BASE_URL (configured_env\<lparr>CC_SATELLITE_BASE_URL := None, CC_BASE_URL := None\<rparr>)
     = None \<and>
   CC_BASE_URL (configured_env\<lparr>CC_SATELLITE_BASE_URL := None, CC_BASE_URL := None\<rparr>) = None \<and>
   url_hostname example_platform ''undefined'' = None \<and>
   generateAccessToken example_platform
     (configured_env\<lparr>CC_SATELLITE_BASE_URL := None, CC_BASE_URL := None\<rparr>)
     1700000000 bare_payload None None = Inl InvalidURL"
proof -
  have h1: "resolveClientSecret None
      (configured_env\<lparr>CC_SATELLITE_BASE_URL := None, CC_BASE_URL := None\<rparr>)
     = Inr example_secret"
    by code_simp
  have h2: "splitClientSecret example_secret = Inr (''abc'', ''aXNz'', ''c2VjcmV0'')"
    by code_simp
  have h3: "baseUrl bare_payload = None"
    by (simp add: bare_payload_def)
  have h4: "CC_SATELLITE_BASE_URL
      (configured_env\<lparr>CC_SATELLITE_BASE_URL := None, CC_BASE_URL := None\<rparr>) = None"
    by simp
  have h5: "CC_BASE_URL
      (configured_env\<lparr>CC_SATELLITE_BASE_URL := None, CC_BASE_URL := None\<rparr>) = None"
    by simp
  have h6: "url_hostname example_platform ''undefined'' = None"
    by code_simp
  show ?thesis
    by (intro conjI h1 h2 h3 h4 h5 h6 no_base_url_surfaces_invalid_url [OF h1 h2 h3 h4 h5 h6])
qed

subsection \<open>C7: the expiry\<close>

text \<open>
  C7. In every token produced, the expiry minus the issue time is the time to live that
  was passed, and 3600 when none was passed.
\<close>

theorem expiry_is_issue_time_plus_ttl:
  assumes "generateAccessToken P env now payload ttl cs = Inr tok"
  shows "exp (claims tok) - iat (claims tok) = (case ttl of None \<Rightarrow> 3600 | Some t \<Rightarrow> t)"
proof -
  from assms obtain pl key opts where
    j: "jwt_sign P now pl key opts = Inr tok" and
    o: "expiresIn opts = (case ttl of None \<Rightarrow> 3600 | Some t \<Rightarrow> t)"
    by (rule generateAccessToken_Inr) simp
  from jwt_sign_Inr(3) [OF j] o show ?thesis by simp
qed

theorem expiry_is_issue_time_plus_ttl_witness:
  "generateAccessToken example_platform no_env 1700000000 example_payload None
     (Some example_secret) = Inr example_token \<and>
   exp (claims example_token) - iat (claims example_token) = 3600 \<and>
   generateAccessToken example_platform no_env 1700000000 example_payload (Some 60)
     (Some example_secret)
     = Inr (example_token\<lparr>claims := (claims example_token)\<lparr>exp := 1700000060\<rparr>\<rparr>) \<and>
   exp (claims (example_token\<lparr>claims := (claims example_token)\<lparr>exp := 1700000060\<rparr>\<rparr>))
     - iat (claims (example_token\<lparr>claims := (claims example_token)\<lparr>exp := 1700000060\<rparr>\<rparr>))
     = 60"
proof -
  have h1: "generateAccessToken example_platform no_env 1700000000 example_payload None
     (Some example_secret) = Inr example_token"
    by code_simp
  have h2: "generateAccessToken example_platform no_env 1700000000 example_payload (Some 60)
     (Some example_secret)
     = Inr (example_token\<lparr>claims := (claims example_token)\<lparr>exp := 1700000060\<rparr>\<rparr>)"
    by code_simp
  show ?thesis
    using expiry_is_issue_time_plus_ttl [OF h1] expiry_is_issue_time_plus_ttl [OF h2] h1 h2
    by simp
qed

subsection \<open>C8: the subject\<close>

text \<open>
  A user identifier that is the empty string is supplied, and the token has no subject.
\<close>

theorem empty_user_id_counterexample:
  "userId (example_payload\<lparr>userId := Some ''''\<rparr>) = Some '''' \<and>
   generateAccessToken example_platform no_env 1700000000
     (example_payload\<lparr>userId := Some ''''\<rparr>) None (Some example_secret) = Inr example_token \<and>
   sub (claims example_token) = None"
  by code_simp

text \<open>
  C8, amended. In every token produced, the subject is there exactly when the payload
  has a user identifier that is not the empty string, and then it is that identifier.
  With no identifier, or with the empty one, the token has no subject.
\<close>

theorem subject_is_nonempty_user_id:
  assumes "generateAccessToken P env now payload ttl cs = Inr tok"
  shows "sub (claims tok) =
           (case userId payload of
              None \<Rightarrow> None
            | Some u \<Rightarrow> if u = [] then None else Some u)"
proof -
  from assms obtain hostname issuer sc key opts where
    j: "jwt_sign P now
          \<lparr>aud = ''https://'' @ hostname, iss = issuer, scope = sc,
           sub = (if truthy (userId payload) then userId payload else None)\<rparr>
          key opts = Inr tok"
    by (rule generateAccessToken_Inr)
  from jwt_sign_Inr(3) [OF j] show ?thesis
    by (simp add: truthy_def split: option.splits)
qed

theorem subject_is_nonempty_user_id_witness:
  "generateAccessToken example_platform no_env 1700000000
     (example_payload\<lparr>userId := Some ''auth0:123456''\<rparr>) None (Some example_secret)
     = Inr (example_token\<lparr>claims := (claims example_token)\<lparr>sub := Some ''auth0:123456''\<rparr>\<rparr>) \<and>
   sub (claims (example_token\<lparr>claims := (claims example_token)\<lparr>sub := Some ''auth0:123456''\<rparr>\<rparr>))
     = (case userId (example_payload\<lparr>userId := Some ''auth0:123456''\<rparr>) of
          None \<Rightarrow> None
        | Some u \<Rightarrow> if u = [] then None else Some u)"
proof -
  have h: "generateAccessToken example_platform no_env 1700000000
     (example_payload\<lparr>userId := Some ''auth0:123456''\<rparr>) None (Some example_secret)
     = Inr (example_token\<lparr>claims := (claims example_token)\<lparr>sub := Some ''auth0:123456''\<rparr>\<rparr>)"
    by code_simp
  show ?thesis by (intro conjI h subject_is_nonempty_user_id [OF h])
qed

subsection \<open>C9: the key identifier\<close>

text \<open>
  C9. In every token produced, the key identifier of the header is \<open>client:\<close>, the first
  piece of the resolved client secret, and \<open>:0\<close>.
\<close>

theorem key_id_names_client:
  assumes "generateAccessToken P env now payload ttl cs = Inr tok"
    and "resolveClientSecret cs env = Inr secret"
  shows "kid (header tok) = ''client:'' @ hd (split secret CHR '':'') @ '':0''"
proof -
  from assms(1) obtain secret' clientId issuerBase64 secretBase64 pl key where
    r: "resolveClientSecret cs env = Inr secret'" and
    s: "splitClientSecret secret' = Inr (clientId, issuerBase64, secretBase64)" and
    j: "jwt_sign P now pl key
          \<lparr>algorithm = (if asymmetric (base64_decode P secretBase64) then RS256 else HS256),
           keyid = ''client:'' @ clientId @ '':0'',
           expiresIn = (case ttl of None \<Rightarrow> 3600 | Some t \<Rightarrow> t)\<rparr> = Inr tok"
    by (rule generateAccessToken_Inr)
  from r assms(2) have e: "secret' = secret" by simp
  from splitClientSecret_Inr(1,2) [OF s] have "clientId = hd (split secret CHR '':'')"
    unfolding e by (cases "split secret CHR '':''") auto
  with jwt_sign_Inr(2) [OF j] show ?thesis by simp
qed

theorem key_id_names_client_witness:
  "generateAccessToken example_platform no_env 1700000000 example_payload None
     (Some example_secret) = Inr example_token \<and>
   resolveClientSecret (Some example_secret) no_env = Inr example_secret \<and>
   kid (header example_token) = ''client:'' @ hd (split example_secret CHR '':'') @ '':0'' \<and>
   hd (split example_secret CHR '':'') = ''abc''"
proof -
  have h1: "generateAccessToken example_platform no_env 1700000000 example_payload None
     (Some example_secret) = Inr example_token"
    by code_simp
  have h2: "resolveClientSecret (Some example_secret) no_env = Inr example_secret"
    by code_simp
  have h3: "hd (split example_secret CHR '':'') = ''abc''"
    by code_simp
  show ?thesis by (intro conjI h1 h2 h3 key_id_names_client [OF h1 h2])
qed

subsection \<open>C10: the unresolved space\<close>

text \<open>
  C10. A missing space identifier is no error. Whenever a call produces a token, the
  same call without \<open>spaceId\<close> in the payload and without \<open>CC_SPACE_ID\<close> in the process
  produces a token too, and the scope of that token has exactly one space entry, the
  text \<open>space:undefined\<close>.
\<close>

theorem unresolved_space_is_embedded:
  assumes "generateAccessToken P env now payload ttl cs = Inr tok"
  shows "\<exists>tok'. generateAccessToken P (env\<lparr>CC_SPACE_ID := None\<rparr>) now
                   (payload\<lparr>spaceId := None\<rparr>) ttl cs = Inr tok' \<and>
                filter space_entry (scope (claims tok')) = [''space:undefined'']"
proof -
  from assms obtain secret clientId issuerBase64 secretBase64 hostname pl where
    r: "resolveClientSecret cs env = Inr secret" and
    s: "splitClientSecret secret = Inr (clientId, issuerBase64, secretBase64)" and
    u: "url_hostname P (to_string (resolveBaseUrl payload env)) = Some hostname" and
    j: "jwt_sign P now pl
          (if asymmetric (base64_decode P secretBase64)
           then KeyText (utf8_text P (base64_decode P secretBase64))
           else KeyBytes (base64_decode P secretBase64))
          \<lparr>algorithm = (if asymmetric (base64_decode P secretBase64) then RS256 else HS256),
           keyid = ''client:'' @ clientId @ '':0'',
           expiresIn = (case ttl of None \<Rightarrow> 3600 | Some t \<Rightarrow> t)\<rparr> = Inr tok"
    by (rule generateAccessToken_Inr)
  from jwt_sign_Inr(1) [OF j]
  have k: "key_accepted P (if asymmetric (base64_decode P secretBase64) then RS256 else HS256)
          (if asymmetric (base64_decode P secretBase64)
           then KeyText (utf8_text P (base64_decode P secretBase64))
           else KeyBytes (base64_decode P secretBase64))"
    by simp
  obtain tok' where
    g: "generateAccessToken P (env\<lparr>CC_SPACE_ID := None\<rparr>) now
          (payload\<lparr>spaceId := None\<rparr>) ttl cs = Inr tok'"
    using r s u k
    by (simp add: generateAccessToken_def resolveClientSecret_env resolveBaseUrl_space
                  jwt_sign_def Let_def)
  have "scope (claims tok') = extendScope (payload\<lparr>spaceId := None\<rparr>) (env\<lparr>CC_SPACE_ID := None\<rparr>)"
    by (rule generateAccessToken_scope [OF g])
  then have "filter space_entry (scope (claims tok')) = [''space:undefined'']"
    by (simp add: extendScope_eq filter_space_entries space_entry_def split: option.splits)
  with g show ?thesis by blast
qed

theorem unresolved_space_is_embedded_witness:
  "generateAccessToken example_platform no_env 1700000000 example_payload None
     (Some example_secret) = Inr example_token \<and>
   generateAccessToken example_platform (no_env\<lparr>CC_SPACE_ID := None\<rparr>) 1700000000
     (example_payload\<lparr>spaceId := None\<rparr>) None (Some example_secret)
     = Inr (example_token\<lparr>claims := (claims example_token)
              \<lparr>scope := [''permission:content:read'', ''service:cdn'', ''space:undefined'',
                         ''environment:env1'', ''environment:env2'']\<rparr>\<rparr>) \<and>
   (\<exists>tok'. generateAccessToken example_platform (no_env\<lparr>CC_SPACE_ID := None\<rparr>) 1700000000
              (example_payload\<lparr>spaceId := None\<rparr>) None (Some example_secret) = Inr tok' \<and>
           filter space_entry (scope (claims tok')) = [''space:undefined''])"
proof -
  have h1: "generateAccessToken example_platform no_env 1700000000 example_payload None
     (Some example_secret) = Inr example_token"
    by code_simp
  have h2: "generateAccessToken example_platform (no_env\<lparr>CC_SPACE_ID := None\<rparr>) 1700000000
     (example_payload\<lparr>spaceId := None\<rparr>) None (Some example_secret)
     = Inr (example_token\<lparr>claims := (claims example_token)
              \<lparr>scope := [''permission:content:read'', ''service:cdn'', ''space:undefined'',
                         ''environment:env1'', ''environment:env2'']\<rparr>\<rparr>)"
    by code_simp
  show ?thesis by (intro conjI h1 h2 unresolved_space_is_embedded [OF h1])
qed

end
